theory Spec2Isabelle
  imports Main "HOL-Library.AList"
begin

section \<open>RuuviTag BLE sensors: the conversion of sensor updates\<close>

text \<open>
  A shallow embedding of \<^verbatim>\<open>homeassistant/components/ruuvitag_ble/sensor.py\<close>.
  Python dictionaries are association lists in insertion order; a store into a
  dictionary is \<^const>\<open>AList.update\<close> (an existing key keeps its place and takes the new
  value, a new key is appended), a lookup is \<^const>\<open>map_of\<close>. A well-formed dictionary has
  pairwise distinct keys. Exceptions are values of the type \<open>error\<close>, and a function that
  can raise returns \<open>error + 'a\<close>. The \<^verbatim>\<open>assert\<close> statement is modelled as executed
  (the interpreter's default mode).
\<close>

subsection \<open>Dictionaries and errors\<close>

datatype error = AssertionError | KeyError

type_synonym ('k, 'v) dict = "('k \<times> 'v) list"

text \<open>\<^verbatim>\<open>k in d\<close>\<close>

definition dict_contains :: "('k, 'v) dict \<Rightarrow> 'k \<Rightarrow> bool" where
  "dict_contains d k = (map_of d k \<noteq> None)"

text \<open>\<^verbatim>\<open>d[k]\<close>, which raises KeyError for a key that is absent\<close>

definition dict_getitem :: "('k, 'v) dict \<Rightarrow> 'k \<Rightarrow> error + 'v" where
  "dict_getitem d k = (case map_of d k of None \<Rightarrow> Inl KeyError | Some v \<Rightarrow> Inr v)"

text \<open>
  \<^verbatim>\<open>{key(x): value(x) for x in items}\<close>: the items are stored one after the other into a
  dictionary that starts empty.
\<close>

definition dict_comp :: "('a \<Rightarrow> 'k) \<Rightarrow> ('a \<Rightarrow> 'v) \<Rightarrow> 'a list \<Rightarrow> ('k, 'v) dict" where
  "dict_comp kf vf items = foldl (\<lambda>acc x. AList.update (kf x) (vf x) acc) [] items"

subsection \<open>Data of the sensor_state_data library\<close>

text \<open>
  Modelled from the spec: the enums \<^verbatim>\<open>SensorDeviceClass\<close> and \<^verbatim>\<open>Units\<close> are declared in
  the sensor_state_data library, which is not part of the sources. The members that
  \<^verbatim>\<open>SENSOR_DESCRIPTIONS\<close> names are constructors; \<open>OTHER_DEVICE_CLASS\<close> and \<open>OTHER_UNIT\<close>
  stand for any other member of the enum, identified by its value. Both are string enums:
  formatting a member gives its value.
\<close>

datatype SensorDeviceClass =
    TEMPERATURE
  | HUMIDITY
  | PRESSURE
  | VOLTAGE
  | SIGNAL_STRENGTH
  | COUNT
  | OTHER_DEVICE_CLASS string

datatype Units =
    TEMP_CELSIUS
  | PERCENTAGE
  | PRESSURE_HPA
  | ELECTRIC_POTENTIAL_MILLIVOLT
  | SIGNAL_STRENGTH_DECIBELS_MILLIWATT
  | OTHER_UNIT string

fun SensorDeviceClass_str :: "SensorDeviceClass \<Rightarrow> string" where
  "SensorDeviceClass_str TEMPERATURE = ''temperature''"
| "SensorDeviceClass_str HUMIDITY = ''humidity''"
| "SensorDeviceClass_str PRESSURE = ''pressure''"
| "SensorDeviceClass_str VOLTAGE = ''voltage''"
| "SensorDeviceClass_str SIGNAL_STRENGTH = ''signal_strength''"
| "SensorDeviceClass_str COUNT = ''count''"
| "SensorDeviceClass_str (OTHER_DEVICE_CLASS v) = v"

text \<open>The degree sign of the Celsius unit is written as its two UTF-8 bytes.\<close>

fun Units_str :: "Units \<Rightarrow> string" where
  "Units_str TEMP_CELSIUS = [CHR 0xC2, CHR 0xB0, CHR ''C'']"
| "Units_str PERCENTAGE = ''%''"
| "Units_str PRESSURE_HPA = ''hPa''"
| "Units_str ELECTRIC_POTENTIAL_MILLIVOLT = ''mV''"
| "Units_str SIGNAL_STRENGTH_DECIBELS_MILLIWATT = ''dBm''"
| "Units_str (OTHER_UNIT v) = v"

record DeviceKey =
  key :: string
  device_id :: "string option"

record SensorDescription =
  device_key :: DeviceKey
  device_class :: "SensorDeviceClass option"
  native_unit_of_measurement :: "Units option"

text \<open>
  The native value of a reading (a number, or None) is only passed on, so its type is a
  parameter \<open>'v\<close>, as is the type \<open>'di\<close> of the library's device information.
\<close>

record 'v SensorValue =
  device_key :: DeviceKey
  name :: string
  native_value :: "'v option"

record ('di, 'v) SensorUpdate =
  devices :: "(string option, 'di) dict"
  entity_descriptions :: "(DeviceKey, SensorDescription) dict"
  entity_values :: "(DeviceKey, 'v SensorValue) dict"

subsection \<open>Data of the platform\<close>

text \<open>
  Modelled from the spec: the platform's constants for units (\<^verbatim>\<open>homeassistant.const\<close>),
  its \<^verbatim>\<open>SensorStateClass\<close> and its \<^verbatim>\<open>SensorEntityDescription\<close> are declared outside the
  sources. The record has the fields that the table sets (key, device class, unit, state
  class, default-enabled flag); a field the table leaves out has its default, None for the
  unit and True for the flag.
\<close>

definition const_TEMP_CELSIUS :: string where
  "const_TEMP_CELSIUS = [CHR 0xC2, CHR 0xB0, CHR ''C'']"

definition const_PERCENTAGE :: string where
  "const_PERCENTAGE = ''%''"

definition const_PRESSURE_HPA :: string where
  "const_PRESSURE_HPA = ''hPa''"

definition const_ELECTRIC_POTENTIAL_MILLIVOLT :: string where
  "const_ELECTRIC_POTENTIAL_MILLIVOLT = ''mV''"

definition const_SIGNAL_STRENGTH_DECIBELS_MILLIWATT :: string where
  "const_SIGNAL_STRENGTH_DECIBELS_MILLIWATT = ''dBm''"

datatype SensorStateClass = MEASUREMENT | TOTAL | TOTAL_INCREASING

record SensorEntityDescription =
  key :: string
  device_class :: "SensorDeviceClass option"
  native_unit_of_measurement :: "string option"
  state_class :: "SensorStateClass option"
  entity_registry_enabled_default :: bool

record PassiveBluetoothEntityKey =
  key :: string
  device_id :: "string option"

record ('hdi, 'v) PassiveBluetoothDataUpdate =
  devices :: "(string option, 'hdi) dict"
  entity_descriptions :: "(PassiveBluetoothEntityKey, SensorEntityDescription) dict"
  entity_data :: "(PassiveBluetoothEntityKey, 'v option) dict"
  entity_names :: "(PassiveBluetoothEntityKey, string) dict"

subsection \<open>The table of supported measurement kinds\<close>

definition SENSOR_DESCRIPTIONS ::
  "(SensorDeviceClass \<times> Units option, SensorEntityDescription) dict" where
  "SENSOR_DESCRIPTIONS =
    [((TEMPERATURE, Some TEMP_CELSIUS),
      \<lparr>SensorEntityDescription.key =
         SensorDeviceClass_str TEMPERATURE @ ''_'' @ Units_str TEMP_CELSIUS,
       device_class = Some TEMPERATURE,
       native_unit_of_measurement = Some const_TEMP_CELSIUS,
       state_class = Some MEASUREMENT,
       entity_registry_enabled_default = True\<rparr>),
     ((HUMIDITY, Some PERCENTAGE),
      \<lparr>SensorEntityDescription.key =
         SensorDeviceClass_str HUMIDITY @ ''_'' @ Units_str PERCENTAGE,
       device_class = Some HUMIDITY,
       native_unit_of_measurement = Some const_PERCENTAGE,
       state_class = Some MEASUREMENT,
       entity_registry_enabled_default = True\<rparr>),
     ((PRESSURE, Some PRESSURE_HPA),
      \<lparr>SensorEntityDescription.key =
         SensorDeviceClass_str PRESSURE @ ''_'' @ Units_str PRESSURE_HPA,
       device_class = Some PRESSURE,
       native_unit_of_measurement = Some const_PRESSURE_HPA,
       state_class = Some MEASUREMENT,
       entity_registry_enabled_default = True\<rparr>),
     ((VOLTAGE, Some ELECTRIC_POTENTIAL_MILLIVOLT),
      \<lparr>SensorEntityDescription.key =
         SensorDeviceClass_str VOLTAGE @ ''_'' @ Units_str ELECTRIC_POTENTIAL_MILLIVOLT,
       device_class = Some VOLTAGE,
       native_unit_of_measurement = Some const_ELECTRIC_POTENTIAL_MILLIVOLT,
       state_class = Some MEASUREMENT,
       entity_registry_enabled_default = True\<rparr>),
     ((SIGNAL_STRENGTH, Some SIGNAL_STRENGTH_DECIBELS_MILLIWATT),
      \<lparr>SensorEntityDescription.key =
         SensorDeviceClass_str SIGNAL_STRENGTH @ ''_''
           @ Units_str SIGNAL_STRENGTH_DECIBELS_MILLIWATT,
       device_class = Some SIGNAL_STRENGTH,
       native_unit_of_measurement = Some const_SIGNAL_STRENGTH_DECIBELS_MILLIWATT,
       state_class = Some MEASUREMENT,
       entity_registry_enabled_default = False\<rparr>),
     ((COUNT, None),
      \<lparr>SensorEntityDescription.key = ''movement_counter'',
       device_class = Some COUNT,
       native_unit_of_measurement = None,
       state_class = Some MEASUREMENT,
       entity_registry_enabled_default = False\<rparr>)]"

subsection \<open>The conversion functions\<close>

definition device_key_to_bluetooth_entity_key :: "DeviceKey \<Rightarrow> PassiveBluetoothEntityKey" where
  "device_key_to_bluetooth_entity_key dev_key =
     \<lparr>PassiveBluetoothEntityKey.key = DeviceKey.key dev_key,
      device_id = DeviceKey.device_id dev_key\<rparr>"

definition to_sensor_key ::
  "SensorDescription \<Rightarrow> error + (SensorDeviceClass \<times> Units option)" where
  "to_sensor_key description =
     (case SensorDescription.device_class description of
        None \<Rightarrow> Inl AssertionError
      | Some dc \<Rightarrow> Inr (dc, SensorDescription.native_unit_of_measurement description))"

text \<open>
  The comprehension that builds \<^verbatim>\<open>entity_descriptions\<close>. For each item the condition
  \<^verbatim>\<open>_to_sensor_key(description) in SENSOR_DESCRIPTIONS\<close> is evaluated first; when it
  holds, the key, then \<^verbatim>\<open>SENSOR_DESCRIPTIONS[_to_sensor_key(description)]\<close> are evaluated
  and stored. An exception ends the comprehension.
\<close>

fun entity_descriptions_comp ::
  "(DeviceKey \<times> SensorDescription) list
   \<Rightarrow> (PassiveBluetoothEntityKey, SensorEntityDescription) dict
   \<Rightarrow> error + (PassiveBluetoothEntityKey, SensorEntityDescription) dict" where
  "entity_descriptions_comp [] acc = Inr acc"
| "entity_descriptions_comp ((dev_key, description) # items) acc =
     (case to_sensor_key description of
        Inl e \<Rightarrow> Inl e
      | Inr sk \<Rightarrow>
          if dict_contains SENSOR_DESCRIPTIONS sk then
            (case to_sensor_key description of
               Inl e \<Rightarrow> Inl e
             | Inr sk' \<Rightarrow>
                 (case dict_getitem SENSOR_DESCRIPTIONS sk' of
                    Inl e \<Rightarrow> Inl e
                  | Inr v \<Rightarrow>
                      entity_descriptions_comp items
                        (AList.update (device_key_to_bluetooth_entity_key dev_key) v acc)))
          else entity_descriptions_comp items acc)"

text \<open>
  The adapter \<^verbatim>\<open>sensor_device_info_to_hass_device_info\<close> is a helper of the platform
  that is not part of the sources; it is the first parameter of the conversion. The
  keyword arguments are evaluated in the order in which they are written.
\<close>

definition sensor_update_to_bluetooth_data_update ::
  "('di \<Rightarrow> 'hdi) \<Rightarrow> ('di, 'v) SensorUpdate \<Rightarrow> error + ('hdi, 'v) PassiveBluetoothDataUpdate" where
  "sensor_update_to_bluetooth_data_update sensor_device_info_to_hass_device_info sensor_update =
     (let devs = dict_comp fst (\<lambda>(device_id, device_info).
                    sensor_device_info_to_hass_device_info device_info)
                  (SensorUpdate.devices sensor_update)
      in case entity_descriptions_comp (SensorUpdate.entity_descriptions sensor_update) [] of
           Inl e \<Rightarrow> Inl e
         | Inr descs \<Rightarrow>
             Inr \<lparr>PassiveBluetoothDataUpdate.devices = devs,
                  entity_descriptions = descs,
                  entity_data =
                    dict_comp (\<lambda>(dev_key, sensor_values).
                                 device_key_to_bluetooth_entity_key dev_key)
                              (\<lambda>(dev_key, sensor_values).
                                 SensorValue.native_value sensor_values)
                              (entity_values sensor_update),
                  entity_names =
                    dict_comp (\<lambda>(dev_key, sensor_values).
                                 device_key_to_bluetooth_entity_key dev_key)
                              (\<lambda>(dev_key, sensor_values). SensorValue.name sensor_values)
                              (entity_values sensor_update)\<rparr>)"

subsection \<open>The sensor entity\<close>

record 'v PassiveBluetoothDataProcessor =
  entity_data :: "(PassiveBluetoothEntityKey, 'v option) dict"

record 'v RuuvitagBluetoothSensorEntity =
  processor :: "'v PassiveBluetoothDataProcessor"
  entity_key :: PassiveBluetoothEntityKey

text \<open>\<^verbatim>\<open>self.processor.entity_data.get(self.entity_key)\<close>: None for a key that is absent\<close>

definition RuuvitagBluetoothSensorEntity_native_value ::
  "'v RuuvitagBluetoothSensorEntity \<Rightarrow> 'v option" where
  "RuuvitagBluetoothSensorEntity_native_value self =
     (case map_of (PassiveBluetoothDataProcessor.entity_data (processor self)) (entity_key self) of
        None \<Rightarrow> None
      | Some v \<Rightarrow> v)"

text \<open>
  Modelled from the spec: the processor that receives the converted updates is code of the
  platform outside the sources. The spec says that an entity exposes ``the most recent
  value for its key, or absence if none received yet''; accordingly, receiving an update
  stores every item of its \<^verbatim>\<open>entity_data\<close> under its key in the processor's
  \<^verbatim>\<open>entity_data\<close>, and nothing else writes there.
\<close>

definition processor_receive ::
  "'v PassiveBluetoothDataProcessor \<Rightarrow> ('hdi, 'v) PassiveBluetoothDataUpdate
   \<Rightarrow> 'v PassiveBluetoothDataProcessor" where
  "processor_receive self new_data =
     self\<lparr>PassiveBluetoothDataProcessor.entity_data :=
       foldl (\<lambda>acc (k, v). AList.update k v acc)
         (PassiveBluetoothDataProcessor.entity_data self)
         (PassiveBluetoothDataUpdate.entity_data new_data)\<rparr>"

subsection \<open>Notions used in the statements\<close>

text \<open>A dictionary has each key once.\<close>

definition dict_wf :: "('k, 'v) dict \<Rightarrow> bool" where
  "dict_wf d = distinct (map fst d)"

text \<open>
  Equality of dictionaries, as \<^verbatim>\<open>==\<close> compares them: the same keys with the same
  values, whatever the order of insertion.
\<close>

definition dict_eq :: "('k, 'v) dict \<Rightarrow> ('k, 'v) dict \<Rightarrow> bool" where
  "dict_eq a b = (\<forall>k \<in> set (map fst a @ map fst b). map_of a k = map_of b k)"

definition SensorUpdate_wf :: "('di, 'v) SensorUpdate \<Rightarrow> bool" where
  "SensorUpdate_wf su =
     (dict_wf (SensorUpdate.devices su)
      \<and> dict_wf (SensorUpdate.entity_descriptions su)
      \<and> dict_wf (entity_values su))"

definition SensorUpdate_eq :: "('di, 'v) SensorUpdate \<Rightarrow> ('di, 'v) SensorUpdate \<Rightarrow> bool" where
  "SensorUpdate_eq su su' =
     (dict_eq (SensorUpdate.devices su) (SensorUpdate.devices su')
      \<and> dict_eq (SensorUpdate.entity_descriptions su) (SensorUpdate.entity_descriptions su')
      \<and> dict_eq (entity_values su) (entity_values su'))"

definition PassiveBluetoothDataUpdate_eq ::
  "('hdi, 'v) PassiveBluetoothDataUpdate \<Rightarrow> ('hdi, 'v) PassiveBluetoothDataUpdate \<Rightarrow> bool" where
  "PassiveBluetoothDataUpdate_eq u u' =
     (dict_eq (PassiveBluetoothDataUpdate.devices u) (PassiveBluetoothDataUpdate.devices u')
      \<and> dict_eq (PassiveBluetoothDataUpdate.entity_descriptions u)
          (PassiveBluetoothDataUpdate.entity_descriptions u')
      \<and> dict_eq (PassiveBluetoothDataUpdate.entity_data u)
          (PassiveBluetoothDataUpdate.entity_data u')
      \<and> dict_eq (entity_names u) (entity_names u'))"

text \<open>Two runs have the same outcome: the same exception, or equal updates.\<close>

fun outcome_eq ::
  "error + ('hdi, 'v) PassiveBluetoothDataUpdate
   \<Rightarrow> error + ('hdi, 'v) PassiveBluetoothDataUpdate \<Rightarrow> bool" where
  "outcome_eq (Inl e) (Inl e') = (e = e')"
| "outcome_eq (Inr u) (Inr u') = PassiveBluetoothDataUpdate_eq u u'"
| "outcome_eq (Inl e) (Inr u') = False"
| "outcome_eq (Inr u) (Inl e') = False"

text \<open>The entry of the table that a description selects, if it selects one.\<close>

definition description_for :: "SensorDescription \<Rightarrow> SensorEntityDescription option" where
  "description_for d =
     (case SensorDescription.device_class d of
        None \<Rightarrow> None
      | Some dc \<Rightarrow>
          map_of SENSOR_DESCRIPTIONS (dc, SensorDescription.native_unit_of_measurement d))"

subsection \<open>Example updates\<close>

definition temperature_key :: DeviceKey where
  "temperature_key = \<lparr>DeviceKey.key = ''temperature'', device_id = None\<rparr>"

definition battery_key :: DeviceKey where
  "battery_key = \<lparr>DeviceKey.key = ''battery'', device_id = None\<rparr>"

definition temperature_description :: SensorDescription where
  "temperature_description =
     \<lparr>SensorDescription.device_key = temperature_key,
      device_class = Some TEMPERATURE,
      native_unit_of_measurement = Some TEMP_CELSIUS\<rparr>"

definition battery_description :: SensorDescription where
  "battery_description =
     \<lparr>SensorDescription.device_key = battery_key,
      device_class = Some (OTHER_DEVICE_CLASS ''battery''),
      native_unit_of_measurement = Some PERCENTAGE\<rparr>"

definition unclassified_description :: SensorDescription where
  "unclassified_description =
     \<lparr>SensorDescription.device_key = battery_key,
      device_class = None,
      native_unit_of_measurement = Some PERCENTAGE\<rparr>"

definition example_update :: "(string, int) SensorUpdate" where
  "example_update =
     \<lparr>SensorUpdate.devices = [(None, ''RuuviTag 0911'')],
      entity_descriptions =
        [(temperature_key, temperature_description), (battery_key, battery_description)],
      entity_values =
        [(temperature_key,
          \<lparr>SensorValue.device_key = temperature_key, name = ''Temperature'',
           native_value = Some 21\<rparr>),
         (battery_key,
          \<lparr>SensorValue.device_key = battery_key, name = ''Battery'',
           native_value = Some 55\<rparr>)]\<rparr>"

definition unclassified_update :: "(string, int) SensorUpdate" where
  "unclassified_update =
     example_update\<lparr>SensorUpdate.entity_descriptions :=
       [(temperature_key, temperature_description), (battery_key, unclassified_description)]\<rparr>"

definition example_output :: "(string, int) PassiveBluetoothDataUpdate" where
  "example_output =
     \<lparr>PassiveBluetoothDataUpdate.devices = [(None, ''RuuviTag 0911'')],
      entity_descriptions =
        [(device_key_to_bluetooth_entity_key temperature_key,
          \<lparr>SensorEntityDescription.key = ''temperature_'' @ [CHR 0xC2, CHR 0xB0, CHR ''C''],
           device_class = Some TEMPERATURE,
           native_unit_of_measurement = Some [CHR 0xC2, CHR 0xB0, CHR ''C''],
           state_class = Some MEASUREMENT,
           entity_registry_enabled_default = True\<rparr>)],
      entity_data =
        [(device_key_to_bluetooth_entity_key temperature_key, Some 21),
         (device_key_to_bluetooth_entity_key battery_key, Some 55)],
      entity_names =
        [(device_key_to_bluetooth_entity_key temperature_key, ''Temperature''),
         (device_key_to_bluetooth_entity_key battery_key, ''Battery'')]\<rparr>"

definition movement_key :: DeviceKey where
  "movement_key = \<lparr>DeviceKey.key = ''movement_counter'', device_id = None\<rparr>"

definition movement_description :: SensorDescription where
  "movement_description =
     \<lparr>SensorDescription.device_key = movement_key,
      device_class = Some COUNT,
      native_unit_of_measurement = None\<rparr>"

definition example_entity :: "int RuuvitagBluetoothSensorEntity" where
  "example_entity =
     \<lparr>processor = \<lparr>PassiveBluetoothDataProcessor.entity_data = []\<rparr>,
      entity_key = device_key_to_bluetooth_entity_key temperature_key\<rparr>"

definition later_output :: "(string, int) PassiveBluetoothDataUpdate" where
  "later_output =
     example_output\<lparr>PassiveBluetoothDataUpdate.entity_data :=
       [(device_key_to_bluetooth_entity_key temperature_key, Some 22)]\<rparr>"

definition battery_output :: "(string, int) PassiveBluetoothDataUpdate" where
  "battery_output =
     example_output\<lparr>PassiveBluetoothDataUpdate.entity_data :=
       [(device_key_to_bluetooth_entity_key battery_key, Some 54)]\<rparr>"

text \<open>The example update with the items of its dictionaries inserted in another order.\<close>

definition reordered_update :: "(string, int) SensorUpdate" where
  "reordered_update =
     \<lparr>SensorUpdate.devices = [(None, ''RuuviTag 0911'')],
      entity_descriptions =
        [(battery_key, battery_description), (temperature_key, temperature_description)],
      entity_values =
        [(battery_key,
          \<lparr>SensorValue.device_key = battery_key, name = ''Battery'',
           native_value = Some 55\<rparr>),
         (temperature_key,
          \<lparr>SensorValue.device_key = temperature_key, name = ''Temperature'',
           native_value = Some 21\<rparr>)]\<rparr>"

section \<open>Auxiliary lemmas\<close>

subsection \<open>Dictionaries built by stores\<close>

lemma update_fresh: "k \<notin> fst ` set al \<Longrightarrow> AList.update k v al = al @ [(k, v)]"
  by (induction al) auto

lemma set_update_subset: "set (AList.update k v al) \<subseteq> insert (k, v) (set al)"
  by (induction al) auto

lemma foldl_update_distinct:
  "distinct (map fst acc @ map kf xs) \<Longrightarrow>
   foldl (\<lambda>acc x. AList.update (kf x) (vf x) acc) acc xs = acc @ map (\<lambda>x. (kf x, vf x)) xs"
proof (induction xs arbitrary: acc)
  case Nil then show ?case by simp
next
  case (Cons x xs)
  have "kf x \<notin> fst ` set acc" using Cons.prems by auto
  then have u: "AList.update (kf x) (vf x) acc = acc @ [(kf x, vf x)]" by (rule update_fresh)
  have "distinct (map fst (acc @ [(kf x, vf x)]) @ map kf xs)" using Cons.prems by auto
  from Cons.IH[OF this] u show ?case by simp
qed

lemma dict_comp_distinct:
  "distinct (map kf xs) \<Longrightarrow> dict_comp kf vf xs = map (\<lambda>x. (kf x, vf x)) xs"
  unfolding dict_comp_def using foldl_update_distinct[of "[]" kf xs vf] by simp

lemma dict_comp_keys: "fst ` set (dict_comp kf vf xs) = kf ` set xs"
proof -
  have "fst ` set (foldl (\<lambda>acc x. AList.update (kf x) (vf x) acc) acc xs)
        = fst ` set acc \<union> kf ` set xs" for acc
    by (induction xs arbitrary: acc) (auto simp: dom_update)
  from this[of "[]"] show ?thesis by (simp add: dict_comp_def)
qed

lemma inj_entity_key: "inj device_key_to_bluetooth_entity_key"
  by (rule injI) (simp add: device_key_to_bluetooth_entity_key_def)

lemma entity_key_eq_iff [simp]:
  "device_key_to_bluetooth_entity_key a = device_key_to_bluetooth_entity_key b \<longleftrightarrow> a = b"
  using inj_entity_key by (auto dest: injD)

lemma distinct_entity_keys:
  "distinct (map fst xs) \<Longrightarrow>
   distinct (map (\<lambda>(dk, y). device_key_to_bluetooth_entity_key dk) xs)"
proof -
  have "map (\<lambda>(dk, y). device_key_to_bluetooth_entity_key dk) xs
        = map device_key_to_bluetooth_entity_key (map fst xs)"
    by (simp add: case_prod_unfold comp_def)
  then show "distinct (map fst xs) \<Longrightarrow> ?thesis"
    by (simp add: distinct_map inj_on_def)
qed

subsection \<open>The comprehension of the entity descriptions\<close>

lemma comp_step:
  "entity_descriptions_comp ((dk, d) # items) acc =
    (case SensorDescription.device_class d of None \<Rightarrow> Inl AssertionError
     | Some dc \<Rightarrow> (case map_of SENSOR_DESCRIPTIONS (dc, SensorDescription.native_unit_of_measurement d) of
          None \<Rightarrow> entity_descriptions_comp items acc
        | Some v \<Rightarrow> entity_descriptions_comp items (AList.update (device_key_to_bluetooth_entity_key dk) v acc)))"
  by (simp add: to_sensor_key_def dict_contains_def dict_getitem_def split: option.splits)

lemma comp_error:
  "entity_descriptions_comp items acc = Inl e \<Longrightarrow>
   e = AssertionError \<and> (\<exists>(dk, d) \<in> set items. SensorDescription.device_class d = None)"
proof (induction items arbitrary: acc)
  case Nil then show ?case by simp
next
  case (Cons x items)
  obtain dk d where x: "x = (dk, d)" by (cases x)
  show ?case using Cons.prems Cons.IH unfolding x comp_step
    by (auto split: option.splits)
qed

lemma comp_assert:
  "(dk, d) \<in> set items \<Longrightarrow> SensorDescription.device_class d = None \<Longrightarrow>
   entity_descriptions_comp items acc = Inl AssertionError"
proof (induction items arbitrary: acc)
  case Nil then show ?case by simp
next
  case (Cons x items)
  obtain dk' d' where x: "x = (dk', d')" by (cases x)
  show ?case using Cons.prems Cons.IH unfolding x comp_step
    by (auto split: option.splits)
qed

lemma comp_ok:
  "\<forall>(dk, d) \<in> set items. SensorDescription.device_class d \<noteq> None \<Longrightarrow>
   \<exists>out. entity_descriptions_comp items acc = Inr out"
proof (cases "entity_descriptions_comp items acc")
  case (Inl e)
  from comp_error[OF this] show "\<forall>(dk, d) \<in> set items. SensorDescription.device_class d \<noteq> None \<Longrightarrow> ?thesis" by auto
next
  case (Inr out) then show ?thesis by simp
qed

lemma comp_values:
  "entity_descriptions_comp items acc = Inr out \<Longrightarrow>
   snd ` set out \<subseteq> snd ` set acc \<union> snd ` set SENSOR_DESCRIPTIONS"
proof (induction items arbitrary: acc)
  case Nil then show ?case by auto
next
  case (Cons x items)
  obtain dk d where x: "x = (dk, d)" by (cases x)
  show ?case
  proof (cases "SensorDescription.device_class d")
    case None
    then show ?thesis using Cons.prems unfolding x comp_step by simp
  next
    case (Some dc)
    show ?thesis
    proof (cases "map_of SENSOR_DESCRIPTIONS (dc, SensorDescription.native_unit_of_measurement d)")
      case None
      then show ?thesis using Cons.prems Cons.IH Some unfolding x comp_step by simp
    next
      case (Some v)
      have v: "v \<in> snd ` set SENSOR_DESCRIPTIONS"
        using map_of_SomeD[OF Some] by force
      have r: "entity_descriptions_comp items (AList.update (device_key_to_bluetooth_entity_key dk) v acc) = Inr out"
        using Cons.prems Some \<open>SensorDescription.device_class d = Some dc\<close> unfolding x comp_step by simp
      have "snd ` set (AList.update (device_key_to_bluetooth_entity_key dk) v acc) \<subseteq> insert v (snd ` set acc)"
        using set_update_subset[of "device_key_to_bluetooth_entity_key dk" v acc] by force
      with Cons.IH[OF r] v show ?thesis by blast
    qed
  qed
qed

text \<open>With distinct keys the result lists the supported items in order.\<close>
lemma comp_distinct:
  "\<forall>(dk, d) \<in> set items. SensorDescription.device_class d \<noteq> None \<Longrightarrow>
   distinct (map fst acc @ map (\<lambda>(dk, d). device_key_to_bluetooth_entity_key dk) items) \<Longrightarrow>
   entity_descriptions_comp items acc =
     Inr (acc @ List.map_filter (\<lambda>(dk, d). map_option (Pair (device_key_to_bluetooth_entity_key dk)) (description_for d)) items)"
proof (induction items arbitrary: acc)
  case Nil then show ?case by (simp add: map_filter_simps)
next
  case (Cons x items)
  obtain dk d where x: "x = (dk, d)" by (cases x)
  from Cons.prems(1) obtain dc where dc: "SensorDescription.device_class d = Some dc"
    unfolding x by auto
  have rest: "\<forall>(dk, d) \<in> set items. SensorDescription.device_class d \<noteq> None"
    using Cons.prems(1) by simp
  show ?case
  proof (cases "map_of SENSOR_DESCRIPTIONS (dc, SensorDescription.native_unit_of_measurement d)")
    case None
    have d': "distinct (map fst acc @ map (\<lambda>(dk, d). device_key_to_bluetooth_entity_key dk) items)"
      using Cons.prems(2) unfolding x by auto
    show ?thesis using Cons.IH[OF rest d'] None dc unfolding x comp_step
      by (simp add: map_filter_simps description_for_def)
  next
    case (Some v)
    let ?k = "device_key_to_bluetooth_entity_key dk"
    have "?k \<notin> fst ` set acc" using Cons.prems(2) unfolding x by auto
    then have u: "AList.update ?k v acc = acc @ [(?k, v)]" by (rule update_fresh)
    have d': "distinct (map fst (acc @ [(?k, v)]) @ map (\<lambda>(dk, d). device_key_to_bluetooth_entity_key dk) items)"
      using Cons.prems(2) unfolding x by auto
    show ?thesis using Cons.IH[OF rest d'] Some dc u unfolding x comp_step
      by (simp add: map_filter_simps description_for_def)
  qed
qed

lemma comp_remove_unsupported:
  "to_sensor_key d = Inr sk \<Longrightarrow> \<not> dict_contains SENSOR_DESCRIPTIONS sk \<Longrightarrow>
   entity_descriptions_comp (filter (\<lambda>x. x \<noteq> (dk, d)) items) acc
     = entity_descriptions_comp items acc"
proof (induction items arbitrary: acc)
  case Nil then show ?case by simp
next
  case (Cons x items)
  obtain dk' d' where x: "x = (dk', d')" by (cases x)
  show ?case
  proof (cases "x = (dk, d)")
    case True
    then show ?thesis using Cons by (simp add: )
  next
    case False
    then show ?thesis using Cons unfolding x
      by (simp split: sum.splits)
  qed
qed


subsection \<open>Equal dictionaries and the whole conversion\<close>

lemma dict_eq_iff: "dict_eq a b \<longleftrightarrow> map_of a = map_of b"
proof
  assume h: "dict_eq a b"
  show "map_of a = map_of b"
  proof
    fix k
    show "map_of a k = map_of b k"
    proof (cases "k \<in> fst ` set a \<union> fst ` set b")
      case True
      then show ?thesis using h by (auto simp: dict_eq_def)
    next
      case False
      then have "map_of a k = None" "map_of b k = None"
        by (simp_all add: map_of_eq_None_iff)
      then show ?thesis by simp
    qed
  qed
next
  assume "map_of a = map_of b"
  then show "dict_eq a b" by (simp add: dict_eq_def)
qed

lemma dict_eq_set:
  "dict_wf a \<Longrightarrow> dict_wf b \<Longrightarrow> dict_eq a b \<Longrightarrow> set a = set b"
  by (simp add: dict_eq_iff dict_wf_def map_of_inject_set)

lemma set_dict_eq:
  "dict_wf a \<Longrightarrow> dict_wf b \<Longrightarrow> set a = set b \<Longrightarrow> dict_eq a b"
  by (simp add: dict_eq_iff dict_wf_def map_of_inject_set)

lemma map_of_keyed_map:
  assumes "distinct (map fst xs)" "(k, y) \<in> set xs"
  shows "map_of (map (\<lambda>(k, y). (device_key_to_bluetooth_entity_key k, g y)) xs)
           (device_key_to_bluetooth_entity_key k) = Some (g y)"
proof -
  let ?ys = "map (\<lambda>(k, y). (device_key_to_bluetooth_entity_key k, g y)) xs"
  have "map fst ?ys = map (\<lambda>(dk, y). device_key_to_bluetooth_entity_key dk) xs"
    by (induction xs) auto
  then have "distinct (map fst ?ys)" using distinct_entity_keys[OF assms(1)] by metis
  moreover have "(device_key_to_bluetooth_entity_key k, g y) \<in> set ?ys"
    using assms(2) by force
  ultimately show ?thesis by simp
qed

lemma data_comp_distinct:
  assumes "dict_wf xs"
  shows "dict_comp (\<lambda>(dk, sv). device_key_to_bluetooth_entity_key dk) (\<lambda>(dk, sv). g sv) xs
         = map (\<lambda>(dk, sv). (device_key_to_bluetooth_entity_key dk, g sv)) xs"
proof -
  have "distinct (map (\<lambda>(dk, sv). device_key_to_bluetooth_entity_key dk) xs)"
    using assms distinct_entity_keys by (simp add: dict_wf_def)
  from dict_comp_distinct[OF this] show ?thesis by (simp add: case_prod_unfold)
qed

lemma conv_Inr:
  "sensor_update_to_bluetooth_data_update a su = Inr out \<Longrightarrow>
   entity_descriptions_comp (SensorUpdate.entity_descriptions su) []
     = Inr (PassiveBluetoothDataUpdate.entity_descriptions out)
   \<and> PassiveBluetoothDataUpdate.devices out
       = dict_comp fst (\<lambda>(device_id, device_info). a device_info) (SensorUpdate.devices su)
   \<and> PassiveBluetoothDataUpdate.entity_data out
       = dict_comp (\<lambda>(dk, sv). device_key_to_bluetooth_entity_key dk)
           (\<lambda>(dk, sv). SensorValue.native_value sv) (entity_values su)
   \<and> entity_names out
       = dict_comp (\<lambda>(dk, sv). device_key_to_bluetooth_entity_key dk)
           (\<lambda>(dk, sv). SensorValue.name sv) (entity_values su)"
  by (auto simp: sensor_update_to_bluetooth_data_update_def Let_def split: sum.splits)

lemma conv_Inl:
  "sensor_update_to_bluetooth_data_update a su = Inl e \<longleftrightarrow>
   entity_descriptions_comp (SensorUpdate.entity_descriptions su) [] = Inl e"
  by (auto simp: sensor_update_to_bluetooth_data_update_def Let_def split: sum.splits)

lemma conv_ok:
  "\<forall>(dk, d) \<in> set (SensorUpdate.entity_descriptions su). SensorDescription.device_class d \<noteq> None \<Longrightarrow>
   \<exists>out. sensor_update_to_bluetooth_data_update a su = Inr out"
proof -
  assume "\<forall>(dk, d) \<in> set (SensorUpdate.entity_descriptions su). SensorDescription.device_class d \<noteq> None"
  from comp_ok[OF this, of "[]"] obtain ds
    where "entity_descriptions_comp (SensorUpdate.entity_descriptions su) [] = Inr ds" by blast
  then show ?thesis by (simp add: sensor_update_to_bluetooth_data_update_def Let_def)
qed

subsection \<open>The example updates, evaluated\<close>

lemmas example_defs = example_update_def unclassified_update_def temperature_key_def
  battery_key_def temperature_description_def battery_description_def
  unclassified_description_def

lemmas conv_defs = sensor_update_to_bluetooth_data_update_def dict_comp_def to_sensor_key_def
  dict_contains_def dict_getitem_def SENSOR_DESCRIPTIONS_def device_key_to_bluetooth_entity_key_def
  const_TEMP_CELSIUS_def const_PERCENTAGE_def const_PRESSURE_HPA_def
  const_ELECTRIC_POTENTIAL_MILLIVOLT_def const_SIGNAL_STRENGTH_DECIBELS_MILLIWATT_def

lemma example_update_converted:
  "sensor_update_to_bluetooth_data_update id example_update = Inr example_output"
  by (simp add: example_output_def example_defs conv_defs)

lemma unclassified_update_raises:
  "sensor_update_to_bluetooth_data_update id unclassified_update = Inl AssertionError"
  by (simp add: example_defs conv_defs)

lemma example_update_wf:
  "dict_wf (SensorUpdate.devices example_update)"
  "dict_wf (SensorUpdate.entity_descriptions example_update)"
  "dict_wf (entity_values example_update)"
  by (simp_all add: dict_wf_def example_defs)

lemma battery_not_described:
  "device_key_to_bluetooth_entity_key battery_key
     \<notin> fst ` set (PassiveBluetoothDataUpdate.entity_descriptions example_output)"
  by (simp add: example_output_def temperature_key_def battery_key_def
      device_key_to_bluetooth_entity_key_def)

section \<open>Properties\<close>

text \<open>
  C4: the translation of a device key to an entity key carries the key and the device id
  over unchanged, and the device key is recovered from the entity key by reading the two
  fields back.
\<close>

theorem device_key_round_trip:
  "PassiveBluetoothEntityKey.key (device_key_to_bluetooth_entity_key dk) = DeviceKey.key dk
   \<and> PassiveBluetoothEntityKey.device_id (device_key_to_bluetooth_entity_key dk)
       = DeviceKey.device_id dk
   \<and> \<lparr>DeviceKey.key = PassiveBluetoothEntityKey.key (device_key_to_bluetooth_entity_key dk),
       device_id = PassiveBluetoothEntityKey.device_id (device_key_to_bluetooth_entity_key dk)\<rparr>
       = dk"
  by (simp add: device_key_to_bluetooth_entity_key_def)


text \<open>
  C3: the \<^verbatim>\<open>entity_data\<close> of the produced update holds the native value of every entry
  of the input's \<^verbatim>\<open>entity_values\<close>, in the order of the input and with nothing left
  out; no table lookup takes part, so a value whose measurement kind is not in the table is
  passed on as well.
\<close>

theorem entity_data_unfiltered:
  assumes "dict_wf (entity_values su)"
    and "sensor_update_to_bluetooth_data_update a su = Inr out"
  shows "PassiveBluetoothDataUpdate.entity_data out
           = map (\<lambda>(dk, sv). (device_key_to_bluetooth_entity_key dk, SensorValue.native_value sv))
               (entity_values su)
         \<and> (\<forall>(dk, sv) \<in> set (entity_values su).
              map_of (PassiveBluetoothDataUpdate.entity_data out)
                (device_key_to_bluetooth_entity_key dk) = Some (SensorValue.native_value sv))"
proof -
  have e: "PassiveBluetoothDataUpdate.entity_data out
           = map (\<lambda>(dk, sv). (device_key_to_bluetooth_entity_key dk, SensorValue.native_value sv))
               (entity_values su)"
    using conv_Inr[OF assms(2)] data_comp_distinct[OF assms(1)] by simp
  have "map_of (PassiveBluetoothDataUpdate.entity_data out)
          (device_key_to_bluetooth_entity_key dk) = Some (SensorValue.native_value sv)"
    if "(dk, sv) \<in> set (entity_values su)" for dk sv
    unfolding e using map_of_keyed_map[OF _ that] assms(1) by (simp add: dict_wf_def)
  with e show ?thesis by blast
qed

text \<open>
  In the example the battery reading has a kind that the table lacks: its description is
  left out, its value is not.
\<close>

theorem entity_data_unfiltered_witness:
  "dict_wf (entity_values example_update)
   \<and> sensor_update_to_bluetooth_data_update id example_update = Inr example_output
   \<and> device_key_to_bluetooth_entity_key battery_key
        \<notin> fst ` set (PassiveBluetoothDataUpdate.entity_descriptions example_output)
   \<and> map_of (PassiveBluetoothDataUpdate.entity_data example_output)
        (device_key_to_bluetooth_entity_key battery_key) = Some (Some 55)"
proof -
  note t = entity_data_unfiltered[OF example_update_wf(3) example_update_converted]
  from t have "\<forall>(dk, sv) \<in> set (entity_values example_update).
      map_of (PassiveBluetoothDataUpdate.entity_data example_output)
        (device_key_to_bluetooth_entity_key dk) = Some (SensorValue.native_value sv)"
    by (rule conjunct2)
  then have "map_of (PassiveBluetoothDataUpdate.entity_data example_output)
        (device_key_to_bluetooth_entity_key battery_key) = Some (Some 55)"
    by (simp add: example_update_def)
  with example_update_wf(3) example_update_converted battery_not_described
  show ?thesis by simp
qed

text \<open>
  C9: \<^verbatim>\<open>entity_data\<close> and \<^verbatim>\<open>entity_names\<close> of the produced update have the same keys,
  the images of the keys of the input's \<^verbatim>\<open>entity_values\<close> under the key translation;
  \<^verbatim>\<open>entity_names\<close> holds each value's name and \<^verbatim>\<open>entity_data\<close> its native value.
\<close>

theorem entity_data_names_keys:
  assumes "sensor_update_to_bluetooth_data_update a su = Inr out"
  shows "fst ` set (PassiveBluetoothDataUpdate.entity_data out)
           = device_key_to_bluetooth_entity_key ` fst ` set (entity_values su)
         \<and> fst ` set (entity_names out)
           = device_key_to_bluetooth_entity_key ` fst ` set (entity_values su)
         \<and> (dict_wf (entity_values su) \<longrightarrow>
             (\<forall>(dk, sv) \<in> set (entity_values su).
                map_of (entity_names out) (device_key_to_bluetooth_entity_key dk)
                  = Some (SensorValue.name sv)
                \<and> map_of (PassiveBluetoothDataUpdate.entity_data out)
                    (device_key_to_bluetooth_entity_key dk) = Some (SensorValue.native_value sv)))"
proof -
  note c = conv_Inr[OF assms]
  have k: "(\<lambda>(dk, sv). device_key_to_bluetooth_entity_key dk) ` set xs
           = device_key_to_bluetooth_entity_key ` fst ` set xs" for xs :: "(DeviceKey \<times> 'z) list"
    by force
  have 1: "fst ` set (PassiveBluetoothDataUpdate.entity_data out)
           = device_key_to_bluetooth_entity_key ` fst ` set (entity_values su)"
    using c by (simp add: dict_comp_keys k)
  have 2: "fst ` set (entity_names out)
           = device_key_to_bluetooth_entity_key ` fst ` set (entity_values su)"
    using c by (simp add: dict_comp_keys k)
  have 3: "map_of (entity_names out) (device_key_to_bluetooth_entity_key dk)
                  = Some (SensorValue.name sv)
           \<and> map_of (PassiveBluetoothDataUpdate.entity_data out)
                    (device_key_to_bluetooth_entity_key dk) = Some (SensorValue.native_value sv)"
    if wf: "dict_wf (entity_values su)" and m: "(dk, sv) \<in> set (entity_values su)" for dk sv
  proof -
    have d: "distinct (map fst (entity_values su))" using wf by (simp add: dict_wf_def)
    have n: "entity_names out
             = map (\<lambda>(dk, sv). (device_key_to_bluetooth_entity_key dk, SensorValue.name sv))
                 (entity_values su)"
      using c data_comp_distinct[OF wf, of SensorValue.name] by simp
    have v: "PassiveBluetoothDataUpdate.entity_data out
             = map (\<lambda>(dk, sv). (device_key_to_bluetooth_entity_key dk, SensorValue.native_value sv))
                 (entity_values su)"
      using c data_comp_distinct[OF wf, of SensorValue.native_value] by simp
    show ?thesis
      unfolding n v
      using map_of_keyed_map[OF d m, of SensorValue.name]
        map_of_keyed_map[OF d m, of SensorValue.native_value] by simp
  qed
  have w: "dict_wf (entity_values su) \<longrightarrow>
             (\<forall>(dk, sv) \<in> set (entity_values su).
                map_of (entity_names out) (device_key_to_bluetooth_entity_key dk)
                  = Some (SensorValue.name sv)
                \<and> map_of (PassiveBluetoothDataUpdate.entity_data out)
                    (device_key_to_bluetooth_entity_key dk) = Some (SensorValue.native_value sv))"
    using 3 by auto
  show ?thesis by (rule conjI[OF 1 conjI[OF 2 w]])
qed

theorem entity_data_names_keys_witness:
  "sensor_update_to_bluetooth_data_update id example_update = Inr example_output
   \<and> fst ` set (PassiveBluetoothDataUpdate.entity_data example_output)
       = {device_key_to_bluetooth_entity_key temperature_key,
          device_key_to_bluetooth_entity_key battery_key}
   \<and> fst ` set (entity_names example_output)
       = {device_key_to_bluetooth_entity_key temperature_key,
          device_key_to_bluetooth_entity_key battery_key}
   \<and> dict_wf (entity_values example_update)
   \<and> map_of (entity_names example_output) (device_key_to_bluetooth_entity_key battery_key)
       = Some ''Battery''
   \<and> map_of (PassiveBluetoothDataUpdate.entity_data example_output)
        (device_key_to_bluetooth_entity_key temperature_key) = Some (Some 21)"
proof -
  note t = entity_data_names_keys[OF example_update_converted]
  from t have 1: "fst ` set (PassiveBluetoothDataUpdate.entity_data example_output)
       = {device_key_to_bluetooth_entity_key temperature_key,
          device_key_to_bluetooth_entity_key battery_key}"
    by (simp add: example_update_def)
  from t have 2: "fst ` set (entity_names example_output)
       = {device_key_to_bluetooth_entity_key temperature_key,
          device_key_to_bluetooth_entity_key battery_key}"
    by (simp add: example_update_def)
  from t[THEN conjunct2, THEN conjunct2, THEN mp, OF example_update_wf(3)]
  have 3: "\<forall>(dk, sv) \<in> set (entity_values example_update).
                map_of (entity_names example_output) (device_key_to_bluetooth_entity_key dk)
                  = Some (SensorValue.name sv)
                \<and> map_of (PassiveBluetoothDataUpdate.entity_data example_output)
                    (device_key_to_bluetooth_entity_key dk) = Some (SensorValue.native_value sv)" .
  from 3 have 4: "map_of (entity_names example_output)
       (device_key_to_bluetooth_entity_key battery_key) = Some ''Battery''
     \<and> map_of (PassiveBluetoothDataUpdate.entity_data example_output)
        (device_key_to_bluetooth_entity_key temperature_key) = Some (Some 21)"
    by (simp add: example_update_def)
  from 1 2 4 example_update_wf(3) example_update_converted show ?thesis by simp
qed

text \<open>
  C6: when every entity description of the input carries a device class, the assertion of
  \<^verbatim>\<open>_to_sensor_key\<close> holds for each of them and the conversion returns an update. Nothing
  else of the input is checked: whenever the conversion raises, the exception is the
  AssertionError, and some description has no device class.
\<close>

theorem completes_with_device_classes:
  "((\<forall>(dk, d) \<in> set (SensorUpdate.entity_descriptions su). SensorDescription.device_class d \<noteq> None) \<longrightarrow>
      (\<forall>(dk, d) \<in> set (SensorUpdate.entity_descriptions su).
         \<exists>dc. SensorDescription.device_class d = Some dc
            \<and> to_sensor_key d = Inr (dc, SensorDescription.native_unit_of_measurement d))
      \<and> (\<exists>out. sensor_update_to_bluetooth_data_update a su = Inr out))
   \<and> (\<forall>e. sensor_update_to_bluetooth_data_update a su = Inl e \<longrightarrow>
        e = AssertionError
        \<and> (\<exists>(dk, d) \<in> set (SensorUpdate.entity_descriptions su). SensorDescription.device_class d = None))"
proof -
  have 1: "\<exists>out. sensor_update_to_bluetooth_data_update a su = Inr out"
    if "\<forall>(dk, d) \<in> set (SensorUpdate.entity_descriptions su). SensorDescription.device_class d \<noteq> None"
    using conv_ok[OF that] .
  have 2: "\<forall>(dk, d) \<in> set (SensorUpdate.entity_descriptions su).
         \<exists>dc. SensorDescription.device_class d = Some dc
            \<and> to_sensor_key d = Inr (dc, SensorDescription.native_unit_of_measurement d)"
    if "\<forall>(dk, d) \<in> set (SensorUpdate.entity_descriptions su). SensorDescription.device_class d \<noteq> None"
    using that by (auto simp: to_sensor_key_def)
  have 3: "e = AssertionError
        \<and> (\<exists>(dk, d) \<in> set (SensorUpdate.entity_descriptions su). SensorDescription.device_class d = None)"
    if "sensor_update_to_bluetooth_data_update a su = Inl e" for e
    using that comp_error by (simp add: conv_Inl)
  from 1 2 3 show ?thesis by blast
qed

theorem completes_with_device_classes_witness:
  "SensorUpdate.entity_descriptions example_update
     = [(temperature_key, temperature_description), (battery_key, battery_description)]
   \<and> SensorDescription.device_class temperature_description = Some TEMPERATURE
   \<and> SensorDescription.device_class battery_description = Some (OTHER_DEVICE_CLASS ''battery'')
   \<and> to_sensor_key battery_description = Inr (OTHER_DEVICE_CLASS ''battery'', Some PERCENTAGE)
   \<and> (\<exists>out. sensor_update_to_bluetooth_data_update id example_update = Inr out)
   \<and> sensor_update_to_bluetooth_data_update id unclassified_update = Inl AssertionError
   \<and> (\<exists>(dk, d) \<in> set (SensorUpdate.entity_descriptions unclassified_update).
         SensorDescription.device_class d = None)"
proof -
  have h: "\<forall>(dk, d) \<in> set (SensorUpdate.entity_descriptions example_update).
       SensorDescription.device_class d \<noteq> None"
    by (simp add: example_defs)
  note t = completes_with_device_classes[of example_update id]
  note u = completes_with_device_classes[of unclassified_update id]
  note c = t[THEN conjunct1, THEN mp, OF h]
  from c have 1: "\<forall>(dk, d) \<in> set (SensorUpdate.entity_descriptions example_update).
         \<exists>dc. SensorDescription.device_class d = Some dc
            \<and> to_sensor_key d = Inr (dc, SensorDescription.native_unit_of_measurement d)"
    by (rule conjunct1)
  from c have 2: "\<exists>out. sensor_update_to_bluetooth_data_update id example_update = Inr out"
    by (rule conjunct2)
  from 1 have 3: "to_sensor_key battery_description
      = Inr (OTHER_DEVICE_CLASS ''battery'', Some PERCENTAGE)"
    by (simp add: example_update_def battery_description_def temperature_description_def)
  from u[THEN conjunct2, THEN spec, THEN mp, OF unclassified_update_raises]
  have 4: "\<exists>(dk, d) \<in> set (SensorUpdate.entity_descriptions unclassified_update).
         SensorDescription.device_class d = None"
    by (rule conjunct2)
  have 5: "SensorUpdate.entity_descriptions example_update
     = [(temperature_key, temperature_description), (battery_key, battery_description)]"
    by (simp add: example_update_def)
  have 6: "SensorDescription.device_class temperature_description = Some TEMPERATURE"
    by (simp add: temperature_description_def)
  have 7: "SensorDescription.device_class battery_description
     = Some (OTHER_DEVICE_CLASS ''battery'')"
    by (simp add: battery_description_def)
  from 5 6 7 2 3 4 unclassified_update_raises show ?thesis by (intro conjI)
qed

text \<open>
  C10: an entity description without a device class is not dropped: the assertion of
  \<^verbatim>\<open>_to_sensor_key\<close> fails when the filter condition is evaluated, before any lookup in
  the table, and the conversion raises AssertionError instead of returning an update.
\<close>

theorem missing_device_class_raises:
  assumes "(dk, d) \<in> set (SensorUpdate.entity_descriptions su)"
    and "SensorDescription.device_class d = None"
  shows "to_sensor_key d = Inl AssertionError
         \<and> sensor_update_to_bluetooth_data_update a su = Inl AssertionError"
  using assms comp_assert[OF assms, of "[]"] by (simp add: to_sensor_key_def conv_Inl)

theorem missing_device_class_raises_witness:
  "(battery_key, unclassified_description)
      \<in> set (SensorUpdate.entity_descriptions unclassified_update)
   \<and> SensorDescription.device_class unclassified_description = None
   \<and> to_sensor_key unclassified_description = Inl AssertionError
   \<and> sensor_update_to_bluetooth_data_update id unclassified_update = Inl AssertionError"
proof -
  have h1: "(battery_key, unclassified_description)
      \<in> set (SensorUpdate.entity_descriptions unclassified_update)"
    by (simp add: unclassified_update_def)
  have h2: "SensorDescription.device_class unclassified_description = None"
    by (simp add: unclassified_description_def)
  from missing_device_class_raises[OF h1 h2, of id] h1 h2 show ?thesis by (intro conjI) simp_all
qed

section \<open>Unsupported and supported measurement kinds\<close>

lemma in_set_map_filter:
  "y \<in> set (List.map_filter f xs) \<longleftrightarrow> (\<exists>x \<in> set xs. f x = Some y)"
  by (induction xs) (auto split: option.splits)

lemma description_for_unsupported:
  "to_sensor_key d = Inr sk \<Longrightarrow> \<not> dict_contains SENSOR_DESCRIPTIONS sk \<Longrightarrow>
   description_for d = None"
  by (auto simp: to_sensor_key_def dict_contains_def description_for_def split: option.splits)

lemma comp_keys_distinct:
  assumes "entity_descriptions_comp items [] = Inr out"
    and "distinct (map fst items)"
  shows "out = List.map_filter (\<lambda>(dk, d).
           map_option (Pair (device_key_to_bluetooth_entity_key dk)) (description_for d)) items"
proof -
  have nn: "\<forall>(dk, d) \<in> set items. SensorDescription.device_class d \<noteq> None"
  proof (rule ccontr)
    assume "\<not> ?thesis"
    then obtain dk d where "(dk, d) \<in> set items" "SensorDescription.device_class d = None"
      by auto
    from comp_assert[OF this, of "[]"] assms(1) show False by simp
  qed
  have "distinct (map fst ([] :: (PassiveBluetoothEntityKey \<times> SensorEntityDescription) list)
          @ map (\<lambda>(dk, d). device_key_to_bluetooth_entity_key dk) items)"
    using distinct_entity_keys[OF assms(2)] by simp
  from comp_distinct[OF nn this] assms(1) show ?thesis by simp
qed

text \<open>
  A description whose sensor key is not in the table has no effect of its own: the
  conversion gives the same result as for the input without it, it never raises KeyError,
  and the description's key is absent from the \<^verbatim>\<open>entity_descriptions\<close> of an update
  that is produced.
\<close>

lemma unsupported_description_no_effect:
  assumes "dict_wf (SensorUpdate.entity_descriptions su)"
    and "(dk, d) \<in> set (SensorUpdate.entity_descriptions su)"
    and "to_sensor_key d = Inr sk"
    and "\<not> dict_contains SENSOR_DESCRIPTIONS sk"
  shows "sensor_update_to_bluetooth_data_update a
           (su\<lparr>SensorUpdate.entity_descriptions :=
                 filter (\<lambda>x. x \<noteq> (dk, d)) (SensorUpdate.entity_descriptions su)\<rparr>)
           = sensor_update_to_bluetooth_data_update a su
         \<and> sensor_update_to_bluetooth_data_update a su \<noteq> Inl KeyError
         \<and> (\<forall>out. sensor_update_to_bluetooth_data_update a su = Inr out \<longrightarrow>
              device_key_to_bluetooth_entity_key dk
                \<notin> fst ` set (PassiveBluetoothDataUpdate.entity_descriptions out))
         \<and> ((\<forall>(dk', d') \<in> set (SensorUpdate.entity_descriptions su).
                SensorDescription.device_class d' \<noteq> None) \<longrightarrow>
              (\<exists>out. sensor_update_to_bluetooth_data_update a su = Inr out))"
proof -
  have 1: "sensor_update_to_bluetooth_data_update a
           (su\<lparr>SensorUpdate.entity_descriptions :=
                 filter (\<lambda>x. x \<noteq> (dk, d)) (SensorUpdate.entity_descriptions su)\<rparr>)
           = sensor_update_to_bluetooth_data_update a su"
    using comp_remove_unsupported[OF assms(3,4), of dk "SensorUpdate.entity_descriptions su" "[]"]
    by (simp add: sensor_update_to_bluetooth_data_update_def split: sum.splits)
  have 2: "sensor_update_to_bluetooth_data_update a su \<noteq> Inl KeyError"
    using comp_error[of "SensorUpdate.entity_descriptions su" "[]" KeyError]
    by (auto simp: conv_Inl)
  have 3: "device_key_to_bluetooth_entity_key dk
                \<notin> fst ` set (PassiveBluetoothDataUpdate.entity_descriptions out)"
    if o: "sensor_update_to_bluetooth_data_update a su = Inr out" for out
  proof
    assume m: "device_key_to_bluetooth_entity_key dk
                \<in> fst ` set (PassiveBluetoothDataUpdate.entity_descriptions out)"
    have d: "distinct (map fst (SensorUpdate.entity_descriptions su))"
      using assms(1) by (simp add: dict_wf_def)
    have e: "PassiveBluetoothDataUpdate.entity_descriptions out
             = List.map_filter (\<lambda>(dk, d).
                 map_option (Pair (device_key_to_bluetooth_entity_key dk)) (description_for d))
                 (SensorUpdate.entity_descriptions su)"
      using comp_keys_distinct[OF _ d] conv_Inr[OF o] by simp
    from m obtain v where "(device_key_to_bluetooth_entity_key dk, v)
        \<in> set (PassiveBluetoothDataUpdate.entity_descriptions out)" by force
    then obtain dk' d' where x: "(dk', d') \<in> set (SensorUpdate.entity_descriptions su)"
      and y: "map_option (Pair (device_key_to_bluetooth_entity_key dk')) (description_for d')
              = Some (device_key_to_bluetooth_entity_key dk, v)"
      unfolding e by (auto simp: in_set_map_filter)
    from y have "dk' = dk" and s: "description_for d' = Some v" by auto
    with x d assms(2) have "d' = d" by (meson eq_key_imp_eq_value)
    with s description_for_unsupported[OF assms(3,4)] show False by simp
  qed
  have 4: "\<exists>out. sensor_update_to_bluetooth_data_update a su = Inr out"
    if "\<forall>(dk', d') \<in> set (SensorUpdate.entity_descriptions su).
                SensorDescription.device_class d' \<noteq> None"
    using conv_ok[OF that] .
  from 3 have w3: "\<forall>out. sensor_update_to_bluetooth_data_update a su = Inr out \<longrightarrow>
              device_key_to_bluetooth_entity_key dk
                \<notin> fst ` set (PassiveBluetoothDataUpdate.entity_descriptions out)" by simp
  from 4 have w4: "(\<forall>(dk', d') \<in> set (SensorUpdate.entity_descriptions su).
                SensorDescription.device_class d' \<noteq> None) \<longrightarrow>
              (\<exists>out. sensor_update_to_bluetooth_data_update a su = Inr out)" by simp
  show ?thesis by (rule conjI[OF 1 conjI[OF 2 conjI[OF w3 w4]]])
qed

text \<open>
  C1, amended: in an input whose entity descriptions all carry a device class, an entity
  description whose (device class, unit) pair is not a key of \<^verbatim>\<open>SENSOR_DESCRIPTIONS\<close>
  is left out silently: the conversion returns an update, the description's key is not in
  its \<^verbatim>\<open>entity_descriptions\<close>, and the update is the one that the input without that
  description gives.
\<close>

theorem unsupported_description_excluded:
  assumes "dict_wf (SensorUpdate.entity_descriptions su)"
    and "\<forall>(dk', d') \<in> set (SensorUpdate.entity_descriptions su).
           SensorDescription.device_class d' \<noteq> None"
    and "(dk, d) \<in> set (SensorUpdate.entity_descriptions su)"
    and "to_sensor_key d = Inr sk"
    and "\<not> dict_contains SENSOR_DESCRIPTIONS sk"
  shows "\<exists>out.
           sensor_update_to_bluetooth_data_update a su = Inr out
           \<and> device_key_to_bluetooth_entity_key dk
               \<notin> fst ` set (PassiveBluetoothDataUpdate.entity_descriptions out)
           \<and> sensor_update_to_bluetooth_data_update a
                 (su\<lparr>SensorUpdate.entity_descriptions :=
                       filter (\<lambda>x. x \<noteq> (dk, d)) (SensorUpdate.entity_descriptions su)\<rparr>)
               = Inr out"
proof -
  note g = unsupported_description_no_effect[OF assms(1,3,4,5), of a]
  from g[THEN conjunct2, THEN conjunct2, THEN conjunct2, THEN mp, OF assms(2)]
  obtain out where o: "sensor_update_to_bluetooth_data_update a su = Inr out" ..
  from g[THEN conjunct2, THEN conjunct2, THEN conjunct1, THEN spec, THEN mp, OF o]
  have n: "device_key_to_bluetooth_entity_key dk
      \<notin> fst ` set (PassiveBluetoothDataUpdate.entity_descriptions out)" .
  from g[THEN conjunct1] o
  have e: "sensor_update_to_bluetooth_data_update a
      (su\<lparr>SensorUpdate.entity_descriptions :=
            filter (\<lambda>x. x \<noteq> (dk, d)) (SensorUpdate.entity_descriptions su)\<rparr>) = Inr out"
    by simp
  from o n e show ?thesis by blast
qed

text \<open>
  In the example update the battery has a device class that the table lacks; its
  description is left out, and the update is the one for the temperature alone.
\<close>

theorem unsupported_description_excluded_witness:
  "dict_wf (SensorUpdate.entity_descriptions example_update)
   \<and> SensorDescription.device_class temperature_description = Some TEMPERATURE
   \<and> SensorDescription.device_class battery_description = Some (OTHER_DEVICE_CLASS ''battery'')
   \<and> (battery_key, battery_description) \<in> set (SensorUpdate.entity_descriptions example_update)
   \<and> to_sensor_key battery_description = Inr (OTHER_DEVICE_CLASS ''battery'', Some PERCENTAGE)
   \<and> \<not> dict_contains SENSOR_DESCRIPTIONS (OTHER_DEVICE_CLASS ''battery'', Some PERCENTAGE)
   \<and> sensor_update_to_bluetooth_data_update id example_update = Inr example_output
   \<and> device_key_to_bluetooth_entity_key battery_key
        \<notin> fst ` set (PassiveBluetoothDataUpdate.entity_descriptions example_output)
   \<and> sensor_update_to_bluetooth_data_update id
        (example_update\<lparr>SensorUpdate.entity_descriptions :=
           [(temperature_key, temperature_description)]\<rparr>) = Inr example_output"
proof -
  have c1: "SensorDescription.device_class temperature_description = Some TEMPERATURE"
    by (simp add: temperature_description_def)
  have c2: "SensorDescription.device_class battery_description
      = Some (OTHER_DEVICE_CLASS ''battery'')"
    by (simp add: battery_description_def)
  have h1: "\<forall>(dk', d') \<in> set (SensorUpdate.entity_descriptions example_update).
           SensorDescription.device_class d' \<noteq> None"
    using c1 c2 by (simp add: example_update_def)
  have h2: "(battery_key, battery_description)
      \<in> set (SensorUpdate.entity_descriptions example_update)"
    by (simp add: example_update_def)
  have h3: "to_sensor_key battery_description
      = Inr (OTHER_DEVICE_CLASS ''battery'', Some PERCENTAGE)"
    by (simp add: to_sensor_key_def battery_description_def)
  have h4: "\<not> dict_contains SENSOR_DESCRIPTIONS (OTHER_DEVICE_CLASS ''battery'', Some PERCENTAGE)"
    by (simp add: dict_contains_def SENSOR_DESCRIPTIONS_def)
  have f: "filter (\<lambda>x. x \<noteq> (battery_key, battery_description))
             (SensorUpdate.entity_descriptions example_update)
           = [(temperature_key, temperature_description)]"
    by (simp add: example_defs)
  from unsupported_description_excluded[OF example_update_wf(2) h1 h2 h3 h4, of id]
  have t: "device_key_to_bluetooth_entity_key battery_key
        \<notin> fst ` set (PassiveBluetoothDataUpdate.entity_descriptions example_output)
     \<and> sensor_update_to_bluetooth_data_update id
        (example_update\<lparr>SensorUpdate.entity_descriptions :=
           [(temperature_key, temperature_description)]\<rparr>) = Inr example_output"
    unfolding f example_update_converted by simp
  from example_update_wf(2) c1 c2 h2 h3 h4 example_update_converted t[THEN conjunct1]
    t[THEN conjunct2]
  show ?thesis by (intro conjI)
qed

text \<open>
  Without the condition on the device classes the statement fails. In this update the
  description of the battery has no device class, so its pair is not a key of the table;
  it is not left out silently: the conversion raises AssertionError and produces nothing.
\<close>

theorem unsupported_description_excluded_counterexample:
  "(battery_key, unclassified_description)
     \<in> set (SensorUpdate.entity_descriptions unclassified_update)
   \<and> (SensorDescription.device_class unclassified_description,
       SensorDescription.native_unit_of_measurement unclassified_description)
     \<notin> map_prod Some id ` fst ` set SENSOR_DESCRIPTIONS
   \<and> sensor_update_to_bluetooth_data_update id unclassified_update = Inl AssertionError"
proof -
  have 1: "(battery_key, unclassified_description)
     \<in> set (SensorUpdate.entity_descriptions unclassified_update)"
    by (simp add: unclassified_update_def)
  have 2: "(SensorDescription.device_class unclassified_description,
       SensorDescription.native_unit_of_measurement unclassified_description)
     \<notin> map_prod Some id ` fst ` set SENSOR_DESCRIPTIONS"
    by (auto simp: unclassified_description_def)
  from 1 2 unclassified_update_raises show ?thesis by (intro conjI)
qed

lemma table_entry:
  "map_of SENSOR_DESCRIPTIONS (dc, u) = Some sed \<Longrightarrow>
   SensorEntityDescription.device_class sed = Some dc
   \<and> SensorEntityDescription.native_unit_of_measurement sed = map_option Units_str u
   \<and> SensorEntityDescription.key sed =
       (case u of None \<Rightarrow> ''movement_counter''
        | Some un \<Rightarrow> SensorDeviceClass_str dc @ ''_'' @ Units_str un)"
  by (auto simp: SENSOR_DESCRIPTIONS_def const_TEMP_CELSIUS_def const_PERCENTAGE_def
      const_PRESSURE_HPA_def const_ELECTRIC_POTENTIAL_MILLIVOLT_def
      const_SIGNAL_STRENGTH_DECIBELS_MILLIWATT_def split: if_splits)

text \<open>
  C2: for a (device class, unit) pair of the table, an update with exactly one entity
  description of that pair is converted to an update with exactly one entity description,
  the entry of the table for the pair: its device class is the pair's, its unit is the
  value of the pair's unit (None for the movement counter), and its key is the key that
  the table gives the pair, device class and unit joined by an underscore, or
  \<^verbatim>\<open>movement_counter\<close> for the pair without unit.
\<close>

theorem supported_pair_single_description:
  assumes "dict_contains SENSOR_DESCRIPTIONS (dc, u)"
    and "SensorUpdate.entity_descriptions su = [(dk, d)]"
    and "SensorDescription.device_class d = Some dc"
    and "SensorDescription.native_unit_of_measurement d = u"
  shows "\<exists>out sed.
           sensor_update_to_bluetooth_data_update a su = Inr out
           \<and> PassiveBluetoothDataUpdate.entity_descriptions out
               = [(device_key_to_bluetooth_entity_key dk, sed)]
           \<and> dict_getitem SENSOR_DESCRIPTIONS (dc, u) = Inr sed
           \<and> SensorEntityDescription.device_class sed = Some dc
           \<and> SensorEntityDescription.native_unit_of_measurement sed = map_option Units_str u
           \<and> SensorEntityDescription.key sed =
               (case u of None \<Rightarrow> ''movement_counter''
                | Some un \<Rightarrow> SensorDeviceClass_str dc @ ''_'' @ Units_str un)"
proof -
  from assms(1) obtain sed where m: "map_of SENSOR_DESCRIPTIONS (dc, u) = Some sed"
    by (auto simp: dict_contains_def)
  have c: "entity_descriptions_comp (SensorUpdate.entity_descriptions su) []
           = Inr [(device_key_to_bluetooth_entity_key dk, sed)]"
    unfolding assms(2) comp_step using m assms(3,4) by simp
  obtain out where o: "sensor_update_to_bluetooth_data_update a su = Inr out"
    using c by (simp add: sensor_update_to_bluetooth_data_update_def Let_def)
  from conv_Inr[OF o] c
  have e: "PassiveBluetoothDataUpdate.entity_descriptions out
           = [(device_key_to_bluetooth_entity_key dk, sed)]" by simp
  have g: "dict_getitem SENSOR_DESCRIPTIONS (dc, u) = Inr sed"
    using m by (simp add: dict_getitem_def)
  from o e g table_entry[OF m] show ?thesis by blast
qed

theorem supported_pair_single_description_witness:
  "dict_contains SENSOR_DESCRIPTIONS (COUNT, None)
   \<and> (\<exists>out sed.
         sensor_update_to_bluetooth_data_update id
           (example_update\<lparr>SensorUpdate.entity_descriptions :=
              [(movement_key, movement_description)]\<rparr>) = Inr out
         \<and> PassiveBluetoothDataUpdate.entity_descriptions out
             = [(device_key_to_bluetooth_entity_key movement_key, sed)]
         \<and> SensorEntityDescription.device_class sed = Some COUNT
         \<and> SensorEntityDescription.native_unit_of_measurement sed = None
         \<and> SensorEntityDescription.key sed = ''movement_counter'')
   \<and> dict_contains SENSOR_DESCRIPTIONS (TEMPERATURE, Some TEMP_CELSIUS)
   \<and> (\<exists>out sed.
         sensor_update_to_bluetooth_data_update id
           (example_update\<lparr>SensorUpdate.entity_descriptions :=
              [(temperature_key, temperature_description)]\<rparr>) = Inr out
         \<and> PassiveBluetoothDataUpdate.entity_descriptions out
             = [(device_key_to_bluetooth_entity_key temperature_key, sed)]
         \<and> SensorEntityDescription.device_class sed = Some TEMPERATURE
         \<and> SensorEntityDescription.native_unit_of_measurement sed
             = Some [CHR 0xC2, CHR 0xB0, CHR ''C'']
         \<and> SensorEntityDescription.key sed = ''temperature_'' @ [CHR 0xC2, CHR 0xB0, CHR ''C''])"
proof -
  have c: "dict_contains SENSOR_DESCRIPTIONS (COUNT, None)"
    by (simp add: dict_contains_def SENSOR_DESCRIPTIONS_def)
  have t: "dict_contains SENSOR_DESCRIPTIONS (TEMPERATURE, Some TEMP_CELSIUS)"
    by (simp add: dict_contains_def SENSOR_DESCRIPTIONS_def)
  have 1: "\<exists>out sed.
         sensor_update_to_bluetooth_data_update id
           (example_update\<lparr>SensorUpdate.entity_descriptions :=
              [(movement_key, movement_description)]\<rparr>) = Inr out
         \<and> PassiveBluetoothDataUpdate.entity_descriptions out
             = [(device_key_to_bluetooth_entity_key movement_key, sed)]
         \<and> SensorEntityDescription.device_class sed = Some COUNT
         \<and> SensorEntityDescription.native_unit_of_measurement sed = None
         \<and> SensorEntityDescription.key sed = ''movement_counter''"
  proof -
    have p1: "SensorUpdate.entity_descriptions
        (example_update\<lparr>SensorUpdate.entity_descriptions :=
              [(movement_key, movement_description)]\<rparr>)
        = [(movement_key, movement_description)]" by simp
    have p2: "SensorDescription.device_class movement_description = Some COUNT"
      by (simp add: movement_description_def)
    have p3: "SensorDescription.native_unit_of_measurement movement_description = None"
      by (simp add: movement_description_def)
    from supported_pair_single_description[OF c p1 p2 p3, of id] show ?thesis by auto
  qed
  have 2: "\<exists>out sed.
         sensor_update_to_bluetooth_data_update id
           (example_update\<lparr>SensorUpdate.entity_descriptions :=
              [(temperature_key, temperature_description)]\<rparr>) = Inr out
         \<and> PassiveBluetoothDataUpdate.entity_descriptions out
             = [(device_key_to_bluetooth_entity_key temperature_key, sed)]
         \<and> SensorEntityDescription.device_class sed = Some TEMPERATURE
         \<and> SensorEntityDescription.native_unit_of_measurement sed
             = Some [CHR 0xC2, CHR 0xB0, CHR ''C'']
         \<and> SensorEntityDescription.key sed = ''temperature_'' @ [CHR 0xC2, CHR 0xB0, CHR ''C'']"
  proof -
    have p1: "SensorUpdate.entity_descriptions
        (example_update\<lparr>SensorUpdate.entity_descriptions :=
              [(temperature_key, temperature_description)]\<rparr>)
        = [(temperature_key, temperature_description)]" by simp
    have p2: "SensorDescription.device_class temperature_description = Some TEMPERATURE"
      by (simp add: temperature_description_def)
    have p3: "SensorDescription.native_unit_of_measurement temperature_description
        = Some TEMP_CELSIUS"
      by (simp add: temperature_description_def)
    from supported_pair_single_description[OF t p1 p2 p3, of id] show ?thesis by auto
  qed
  from c 1 t 2 show ?thesis by (intro conjI)
qed

lemma table_getitem:
  "(sk, sed) \<in> set SENSOR_DESCRIPTIONS \<Longrightarrow> dict_getitem SENSOR_DESCRIPTIONS sk = Inr sed"
proof -
  have "distinct (map fst SENSOR_DESCRIPTIONS)" by (simp add: SENSOR_DESCRIPTIONS_def)
  then show "(sk, sed) \<in> set SENSOR_DESCRIPTIONS \<Longrightarrow> ?thesis"
    by (simp add: dict_getitem_def)
qed

text \<open>
  C8: the table has exactly six entries, one for each of temperature, humidity, pressure,
  voltage, signal strength and the movement counter, with pairwise different keys; and
  every entity description in an update that the conversion produces is an entry of the
  table. The table is a constant, and the conversion returns no changed table.
\<close>

theorem sensor_descriptions_six_kinds:
  "map fst SENSOR_DESCRIPTIONS =
     [(TEMPERATURE, Some TEMP_CELSIUS), (HUMIDITY, Some PERCENTAGE),
      (PRESSURE, Some PRESSURE_HPA), (VOLTAGE, Some ELECTRIC_POTENTIAL_MILLIVOLT),
      (SIGNAL_STRENGTH, Some SIGNAL_STRENGTH_DECIBELS_MILLIWATT), (COUNT, None)]
   \<and> dict_wf SENSOR_DESCRIPTIONS
   \<and> map (\<lambda>(sk, sed). SensorEntityDescription.device_class sed) SENSOR_DESCRIPTIONS =
       [Some TEMPERATURE, Some HUMIDITY, Some PRESSURE, Some VOLTAGE, Some SIGNAL_STRENGTH,
        Some COUNT]
   \<and> (\<forall>out. sensor_update_to_bluetooth_data_update a su = Inr out \<longrightarrow>
        (\<forall>(ek, sed) \<in> set (PassiveBluetoothDataUpdate.entity_descriptions out).
           \<exists>sk. dict_getitem SENSOR_DESCRIPTIONS sk = Inr sed))"
proof -
  have 1: "map fst SENSOR_DESCRIPTIONS =
     [(TEMPERATURE, Some TEMP_CELSIUS), (HUMIDITY, Some PERCENTAGE),
      (PRESSURE, Some PRESSURE_HPA), (VOLTAGE, Some ELECTRIC_POTENTIAL_MILLIVOLT),
      (SIGNAL_STRENGTH, Some SIGNAL_STRENGTH_DECIBELS_MILLIWATT), (COUNT, None)]"
    by (simp add: SENSOR_DESCRIPTIONS_def)
  have 2: "dict_wf SENSOR_DESCRIPTIONS"
    unfolding dict_wf_def 1 by simp
  have 3: "map (\<lambda>(sk, sed). SensorEntityDescription.device_class sed) SENSOR_DESCRIPTIONS =
       [Some TEMPERATURE, Some HUMIDITY, Some PRESSURE, Some VOLTAGE, Some SIGNAL_STRENGTH,
        Some COUNT]"
    by (simp add: SENSOR_DESCRIPTIONS_def)
  have 4: "\<exists>sk. dict_getitem SENSOR_DESCRIPTIONS sk = Inr sed"
    if o: "sensor_update_to_bluetooth_data_update a su = Inr out"
      and m: "(ek, sed) \<in> set (PassiveBluetoothDataUpdate.entity_descriptions out)"
    for out ek sed
  proof -
    from comp_values[of "SensorUpdate.entity_descriptions su" "[]"
        "PassiveBluetoothDataUpdate.entity_descriptions out"] conv_Inr[OF o]
    have "snd ` set (PassiveBluetoothDataUpdate.entity_descriptions out)
          \<subseteq> snd ` set SENSOR_DESCRIPTIONS" by simp
    with m have "sed \<in> snd ` set SENSOR_DESCRIPTIONS" by force
    then obtain sk where "(sk, sed) \<in> set SENSOR_DESCRIPTIONS" by force
    from table_getitem[OF this] show ?thesis ..
  qed
  from 4 have w: "\<forall>out. sensor_update_to_bluetooth_data_update a su = Inr out \<longrightarrow>
        (\<forall>(ek, sed) \<in> set (PassiveBluetoothDataUpdate.entity_descriptions out).
           \<exists>sk. dict_getitem SENSOR_DESCRIPTIONS sk = Inr sed)" by auto
  show ?thesis by (rule conjI[OF 1 conjI[OF 2 conjI[OF 3 w]]])
qed

theorem sensor_descriptions_six_kinds_witness:
  "length SENSOR_DESCRIPTIONS = 6
   \<and> sensor_update_to_bluetooth_data_update id example_update = Inr example_output
   \<and> (\<exists>ek sed sk. PassiveBluetoothDataUpdate.entity_descriptions example_output = [(ek, sed)]
         \<and> dict_getitem SENSOR_DESCRIPTIONS sk = Inr sed)"
proof -
  note t = sensor_descriptions_six_kinds[of id example_update]
  from t[THEN conjunct1] have "length (map fst SENSOR_DESCRIPTIONS) = 6" by simp
  then have 1: "length SENSOR_DESCRIPTIONS = 6" by simp
  note b = t[THEN conjunct2, THEN conjunct2, THEN conjunct2, THEN spec, THEN mp,
      OF example_update_converted]
  obtain ek sed where e: "PassiveBluetoothDataUpdate.entity_descriptions example_output
      = [(ek, sed)]"
    by (simp add: example_output_def)
  with b have "\<exists>sk. dict_getitem SENSOR_DESCRIPTIONS sk = Inr sed" by simp
  with e have 2: "\<exists>ek sed sk.
      PassiveBluetoothDataUpdate.entity_descriptions example_output = [(ek, sed)]
      \<and> dict_getitem SENSOR_DESCRIPTIONS sk = Inr sed" by blast
  from 1 example_update_converted 2 show ?thesis by (intro conjI)
qed

section \<open>The value of a sensor entity\<close>

lemma map_of_foldl_update:
  "distinct (map fst xs) \<Longrightarrow>
   map_of (foldl (\<lambda>acc (k, v). AList.update k v acc) acc xs) k
     = (case map_of xs k of None \<Rightarrow> map_of acc k | Some v \<Rightarrow> Some v)"
proof (induction xs arbitrary: acc)
  case Nil
  then show ?case by simp
next
  case (Cons x xs)
  obtain k' v' where x: "x = (k', v')" by (cases x)
  from Cons.prems have d: "distinct (map fst xs)" and n: "k' \<notin> fst ` set xs"
    unfolding x by auto
  from n have m: "map_of xs k' = None" by (simp add: map_of_eq_None_iff)
  show ?case
    unfolding x using Cons.IH[OF d, of "AList.update k' v' acc"] m
    by (simp add: update_conv' split: option.splits)
qed

lemma native_value_receive:
  assumes "dict_wf (PassiveBluetoothDataUpdate.entity_data new_data)"
  shows "RuuvitagBluetoothSensorEntity_native_value
           (self\<lparr>processor := processor_receive (processor self) new_data\<rparr>)
         = (case map_of (PassiveBluetoothDataUpdate.entity_data new_data) (entity_key self) of
              None \<Rightarrow> RuuvitagBluetoothSensorEntity_native_value self
            | Some v \<Rightarrow> v)"
  using map_of_foldl_update[of "PassiveBluetoothDataUpdate.entity_data new_data"
      "PassiveBluetoothDataProcessor.entity_data (processor self)" "entity_key self"] assms
  by (simp add: RuuvitagBluetoothSensorEntity_native_value_def processor_receive_def dict_wf_def
      split: option.splits)

text \<open>
  C5: an entity whose key has no entry in the processor's \<^verbatim>\<open>entity_data\<close> has the native
  value None, not a default; with an entry, the native value is the value of the entry.
  The entry is the most recent value: once the processor has received an update with a
  value for the key, that value is returned, whatever was recorded before, and an update
  without a value for the key leaves the native value as it was.
\<close>

theorem native_value_absent_or_most_recent:
  "(entity_key self \<notin> fst ` set (PassiveBluetoothDataProcessor.entity_data (processor self))
      \<longrightarrow> RuuvitagBluetoothSensorEntity_native_value self = None)
   \<and> (map_of (PassiveBluetoothDataProcessor.entity_data (processor self)) (entity_key self)
        = Some v \<longrightarrow> RuuvitagBluetoothSensorEntity_native_value self = v)
   \<and> (dict_wf (PassiveBluetoothDataUpdate.entity_data new_data) \<longrightarrow>
        (map_of (PassiveBluetoothDataUpdate.entity_data new_data) (entity_key self) = Some w
           \<longrightarrow> RuuvitagBluetoothSensorEntity_native_value
                 (self\<lparr>processor := processor_receive (processor self) new_data\<rparr>) = w)
        \<and> (entity_key self \<notin> fst ` set (PassiveBluetoothDataUpdate.entity_data new_data)
           \<longrightarrow> RuuvitagBluetoothSensorEntity_native_value
                 (self\<lparr>processor := processor_receive (processor self) new_data\<rparr>)
               = RuuvitagBluetoothSensorEntity_native_value self))"
proof -
  have 1: "entity_key self \<notin> fst ` set (PassiveBluetoothDataProcessor.entity_data (processor self))
      \<longrightarrow> RuuvitagBluetoothSensorEntity_native_value self = None"
    by (simp add: RuuvitagBluetoothSensorEntity_native_value_def map_of_eq_None_iff[symmetric])
  have 2: "map_of (PassiveBluetoothDataProcessor.entity_data (processor self)) (entity_key self)
        = Some v \<longrightarrow> RuuvitagBluetoothSensorEntity_native_value self = v"
    by (simp add: RuuvitagBluetoothSensorEntity_native_value_def)
  have 3: "dict_wf (PassiveBluetoothDataUpdate.entity_data new_data) \<longrightarrow>
        (map_of (PassiveBluetoothDataUpdate.entity_data new_data) (entity_key self) = Some w
           \<longrightarrow> RuuvitagBluetoothSensorEntity_native_value
                 (self\<lparr>processor := processor_receive (processor self) new_data\<rparr>) = w)
        \<and> (entity_key self \<notin> fst ` set (PassiveBluetoothDataUpdate.entity_data new_data)
           \<longrightarrow> RuuvitagBluetoothSensorEntity_native_value
                 (self\<lparr>processor := processor_receive (processor self) new_data\<rparr>)
               = RuuvitagBluetoothSensorEntity_native_value self)"
    by (simp add: native_value_receive map_of_eq_None_iff[symmetric])
  show ?thesis by (rule conjI[OF 1 conjI[OF 2 3]])
qed

text \<open>
  An entity for the temperature: no value at first, 21 after the example update, 22 after
  a later update, and still 21 after an update that has the battery only.
\<close>

theorem native_value_absent_or_most_recent_witness:
  "entity_key example_entity
     \<notin> fst ` set (PassiveBluetoothDataProcessor.entity_data (processor example_entity))
   \<and> RuuvitagBluetoothSensorEntity_native_value example_entity = None
   \<and> dict_wf (PassiveBluetoothDataUpdate.entity_data example_output)
   \<and> RuuvitagBluetoothSensorEntity_native_value
        (example_entity\<lparr>processor :=
           processor_receive (processor example_entity) example_output\<rparr>) = Some 21
   \<and> RuuvitagBluetoothSensorEntity_native_value
        (example_entity\<lparr>processor :=
           processor_receive (processor_receive (processor example_entity) example_output)
             later_output\<rparr>) = Some 22
   \<and> RuuvitagBluetoothSensorEntity_native_value
        (example_entity\<lparr>processor :=
           processor_receive (processor_receive (processor example_entity) example_output)
             battery_output\<rparr>) = Some 21"
proof -
  let ?e1 = "example_entity\<lparr>processor :=
           processor_receive (processor example_entity) example_output\<rparr>"
  have k: "temperature_key \<noteq> battery_key"
    by (simp add: temperature_key_def battery_key_def)
  have h0: "entity_key example_entity
     \<notin> fst ` set (PassiveBluetoothDataProcessor.entity_data (processor example_entity))"
    by (simp add: example_entity_def)
  have wf: "dict_wf (PassiveBluetoothDataUpdate.entity_data example_output)"
    using k by (simp add: dict_wf_def example_output_def)
  have wf1: "dict_wf (PassiveBluetoothDataUpdate.entity_data later_output)"
    by (simp add: dict_wf_def later_output_def)
  have wf2: "dict_wf (PassiveBluetoothDataUpdate.entity_data battery_output)"
    by (simp add: dict_wf_def battery_output_def)
  have m0: "map_of (PassiveBluetoothDataUpdate.entity_data example_output)
      (entity_key example_entity) = Some (Some 21)"
    by (simp add: example_output_def example_entity_def)
  have m1: "map_of (PassiveBluetoothDataUpdate.entity_data later_output)
      (entity_key ?e1) = Some (Some 22)"
    by (simp add: later_output_def example_entity_def)
  have m2: "entity_key ?e1 \<notin> fst ` set (PassiveBluetoothDataUpdate.entity_data battery_output)"
    using k by (simp add: battery_output_def example_entity_def)
  note t0 = native_value_absent_or_most_recent[of example_entity _ example_output "Some 21"]
  note t1 = native_value_absent_or_most_recent[of ?e1 _ later_output "Some 22"]
  note t2 = native_value_absent_or_most_recent[of ?e1 _ battery_output]
  from t0[THEN conjunct1, THEN mp, OF h0]
  have 1: "RuuvitagBluetoothSensorEntity_native_value example_entity = None" .
  from t0[THEN conjunct2, THEN conjunct2, THEN mp, OF wf, THEN conjunct1, THEN mp, OF m0]
  have 2: "RuuvitagBluetoothSensorEntity_native_value ?e1 = Some 21" .
  from t1[THEN conjunct2, THEN conjunct2, THEN mp, OF wf1, THEN conjunct1, THEN mp, OF m1]
  have 3: "RuuvitagBluetoothSensorEntity_native_value
        (example_entity\<lparr>processor :=
           processor_receive (processor_receive (processor example_entity) example_output)
             later_output\<rparr>) = Some 22" by simp
  from t2[THEN conjunct2, THEN conjunct2, THEN mp, OF wf2, THEN conjunct2, THEN mp, OF m2] 2
  have 4: "RuuvitagBluetoothSensorEntity_native_value
        (example_entity\<lparr>processor :=
           processor_receive (processor_receive (processor example_entity) example_output)
             battery_output\<rparr>) = Some 21" by simp
  from h0 1 wf 2 3 4 show ?thesis by (intro conjI)
qed

section \<open>The conversion is a function of its input\<close>

lemma conv_assert:
  "(dk, d) \<in> set (SensorUpdate.entity_descriptions su) \<Longrightarrow>
   SensorDescription.device_class d = None \<Longrightarrow>
   sensor_update_to_bluetooth_data_update a su = Inl AssertionError"
  using comp_assert[of dk d "SensorUpdate.entity_descriptions su" "[]"] by (simp add: conv_Inl)

lemma dict_comp_eq:
  assumes "distinct (map kf xs)" "distinct (map kf ys)" "set xs = set ys"
  shows "dict_eq (dict_comp kf vf xs) (dict_comp kf vf ys)"
proof -
  let ?F = "\<lambda>x. (kf x, vf x)"
  have f: "map fst (map ?F zs) = map kf zs" for zs by (induction zs) auto
  have "dict_wf (map ?F xs)" "dict_wf (map ?F ys)"
    using assms(1,2) unfolding dict_wf_def f by simp_all
  moreover have "set (map ?F xs) = set (map ?F ys)" using assms(3) by simp
  ultimately have "dict_eq (map ?F xs) (map ?F ys)" by (rule set_dict_eq)
  then show ?thesis
    using dict_comp_distinct[OF assms(1), of vf] dict_comp_distinct[OF assms(2), of vf] by simp
qed

lemma distinct_map_filter_keys:
  "distinct (map fst items) \<Longrightarrow>
   distinct (map fst (List.map_filter (\<lambda>(dk, d).
      map_option (Pair (device_key_to_bluetooth_entity_key dk)) (description_for d)) items))"
proof (induction items)
  case Nil
  then show ?case by simp
next
  case (Cons x items)
  obtain dk d where x: "x = (dk, d)" by (cases x)
  from Cons.prems have n: "dk \<notin> fst ` set items" and d: "distinct (map fst items)"
    unfolding x by auto
  have "device_key_to_bluetooth_entity_key dk
      \<notin> fst ` set (List.map_filter (\<lambda>(dk, d).
      map_option (Pair (device_key_to_bluetooth_entity_key dk)) (description_for d)) items)"
  proof
    assume "device_key_to_bluetooth_entity_key dk
      \<in> fst ` set (List.map_filter (\<lambda>(dk, d).
      map_option (Pair (device_key_to_bluetooth_entity_key dk)) (description_for d)) items)"
    then obtain v dk' d' where "(dk', d') \<in> set items"
      and "map_option (Pair (device_key_to_bluetooth_entity_key dk')) (description_for d')
           = Some (device_key_to_bluetooth_entity_key dk, v)"
      by (auto simp: in_set_map_filter)
    then have "dk' = dk" "(dk', d') \<in> set items" by auto
    with n show False by force
  qed
  with Cons.IH[OF d] show ?case unfolding x by (simp split: option.splits)
qed

lemma descriptions_eq:
  assumes "dict_wf xs" "dict_wf ys" "set xs = set ys"
    and "entity_descriptions_comp xs [] = Inr out"
    and "entity_descriptions_comp ys [] = Inr out'"
  shows "dict_eq out out'"
proof -
  let ?G = "\<lambda>(dk, d).
      map_option (Pair (device_key_to_bluetooth_entity_key dk)) (description_for d)"
  have dx: "distinct (map fst xs)" and dy: "distinct (map fst ys)"
    using assms(1,2) by (simp_all add: dict_wf_def)
  have o: "out = List.map_filter ?G xs" by (rule comp_keys_distinct[OF assms(4) dx])
  have o': "out' = List.map_filter ?G ys" by (rule comp_keys_distinct[OF assms(5) dy])
  have "dict_wf out" "dict_wf out'"
    unfolding o o' dict_wf_def using distinct_map_filter_keys dx dy by blast+
  moreover have "set out = set out'"
    unfolding o o' using assms(3) by (auto simp: in_set_map_filter)
  ultimately show ?thesis by (rule set_dict_eq)
qed

text \<open>
  C7: the conversion reads its argument and the constant table only, and it writes
  nothing, so two calls on the same update return the same result. More than that holds:
  two updates that are equal as dictionaries are compared (the same keys and values,
  in whatever order they were inserted) have equal outcomes, that is the same exception,
  or updates whose four dictionaries are equal.
\<close>

theorem conversion_deterministic:
  assumes "SensorUpdate_wf su" and "SensorUpdate_wf su'" and "SensorUpdate_eq su su'"
  shows "outcome_eq (sensor_update_to_bluetooth_data_update a su)
           (sensor_update_to_bluetooth_data_update a su')"
proof -
  have wf: "dict_wf (SensorUpdate.devices su)" "dict_wf (SensorUpdate.entity_descriptions su)"
      "dict_wf (entity_values su)"
    and wf': "dict_wf (SensorUpdate.devices su')"
      "dict_wf (SensorUpdate.entity_descriptions su')" "dict_wf (entity_values su')"
    using assms(1,2) by (simp_all add: SensorUpdate_wf_def)
  have s1: "set (SensorUpdate.devices su) = set (SensorUpdate.devices su')"
    using assms(3) wf(1) wf'(1) by (simp add: SensorUpdate_eq_def dict_eq_set)
  have s2: "set (SensorUpdate.entity_descriptions su) = set (SensorUpdate.entity_descriptions su')"
    using assms(3) wf(2) wf'(2) by (simp add: SensorUpdate_eq_def dict_eq_set)
  have s3: "set (entity_values su) = set (entity_values su')"
    using assms(3) wf(3) wf'(3) by (simp add: SensorUpdate_eq_def dict_eq_set)
  show ?thesis
  proof (cases "\<exists>(dk, d) \<in> set (SensorUpdate.entity_descriptions su).
      SensorDescription.device_class d = None")
    case True
    then obtain dk d where m: "(dk, d) \<in> set (SensorUpdate.entity_descriptions su)"
      and n: "SensorDescription.device_class d = None" by auto
    from m s2 have m': "(dk, d) \<in> set (SensorUpdate.entity_descriptions su')" by simp
    from conv_assert[OF m n, of a] conv_assert[OF m' n, of a]
    show ?thesis by simp
  next
    case False
    then have nn: "\<forall>(dk, d) \<in> set (SensorUpdate.entity_descriptions su).
        SensorDescription.device_class d \<noteq> None" by auto
    with s2 have nn': "\<forall>(dk, d) \<in> set (SensorUpdate.entity_descriptions su').
        SensorDescription.device_class d \<noteq> None" by simp
    from conv_ok[OF nn, of a] obtain out
      where o: "sensor_update_to_bluetooth_data_update a su = Inr out" by blast
    from conv_ok[OF nn', of a] obtain out'
      where o': "sensor_update_to_bluetooth_data_update a su' = Inr out'" by blast
    note c = conv_Inr[OF o] and c' = conv_Inr[OF o']
    have e1: "dict_eq (PassiveBluetoothDataUpdate.devices out)
        (PassiveBluetoothDataUpdate.devices out')"
      using c c' dict_comp_eq[of fst "SensorUpdate.devices su" "SensorUpdate.devices su'"] wf(1) wf'(1) s1
      by (simp add: dict_wf_def)
    have e2: "dict_eq (PassiveBluetoothDataUpdate.entity_descriptions out)
        (PassiveBluetoothDataUpdate.entity_descriptions out')"
      using descriptions_eq[OF wf(2) wf'(2) s2] c c' by simp
    have k: "distinct (map (\<lambda>(dk, sv). device_key_to_bluetooth_entity_key dk) (entity_values su))"
      "distinct (map (\<lambda>(dk, sv). device_key_to_bluetooth_entity_key dk) (entity_values su'))"
      using wf(3) wf'(3) distinct_entity_keys by (simp_all add: dict_wf_def)
    have e3: "dict_eq (PassiveBluetoothDataUpdate.entity_data out)
        (PassiveBluetoothDataUpdate.entity_data out')"
      using c c' dict_comp_eq[OF k s3] by simp
    have e4: "dict_eq (entity_names out) (entity_names out')"
      using c c' dict_comp_eq[OF k s3] by simp
    from e1 e2 e3 e4 show ?thesis
      unfolding o o' by (simp add: PassiveBluetoothDataUpdate_eq_def)
  qed
qed

theorem conversion_deterministic_witness:
  "SensorUpdate_wf example_update
   \<and> SensorUpdate_wf reordered_update
   \<and> SensorUpdate_eq example_update reordered_update
   \<and> example_update \<noteq> reordered_update
   \<and> outcome_eq (Inr example_output) (sensor_update_to_bluetooth_data_update id reordered_update)"
proof -
  have k: "temperature_key \<noteq> battery_key" "battery_key \<noteq> temperature_key"
    by (simp_all add: temperature_key_def battery_key_def)
  have w: "SensorUpdate_wf example_update"
    using example_update_wf by (simp add: SensorUpdate_wf_def)
  have w': "SensorUpdate_wf reordered_update"
    using k by (simp add: SensorUpdate_wf_def dict_wf_def reordered_update_def)
  have e: "SensorUpdate_eq example_update reordered_update"
    using k by (simp add: SensorUpdate_eq_def dict_eq_def example_update_def reordered_update_def)
  have n: "example_update \<noteq> reordered_update"
    using k by (simp add: example_update_def reordered_update_def)
  from conversion_deterministic[OF w w' e, of id]
  have "outcome_eq (Inr example_output)
      (sensor_update_to_bluetooth_data_update id reordered_update)"
    unfolding example_update_converted .
  with w w' e n show ?thesis by (intro conjI)
qed

end
